theory Spec2Isabelle
  imports Complex_Main
begin

section \<open>JavaScript values as the chart component sees them\<close>

text \<open>
  A result row reaches \<^verbatim>\<open>ChartView\<close> as a JavaScript object parsed from JSON. Its
  property values are scalars: null, booleans, numbers and strings; reading a property the
  object does not have gives undefined.

  A number is NaN, one of the two infinities, or a finite value, kept as the real number it
  denotes. The component never computes with row values, it only passes them through
  \<^verbatim>\<open>Number\<close>, \<^verbatim>\<open>String\<close> and \<^verbatim>\<open>isNaN\<close>, so rounding and the sign of zero play no part.
\<close>

datatype jsnum = NaN | PosInf | NegInf | Num real

datatype jsval = JUndefined | JNull | JBool bool | JNum jsnum | JStr string

text \<open>
  Two conversions of the language are not part of the repository: the reading of a string
  as a numeric literal (\<^verbatim>\<open>StringToNumber\<close>, behind \<^verbatim>\<open>Number(s)\<close>) and the printing
  of a number (\<^verbatim>\<open>Number::toString\<close>, behind \<^verbatim>\<open>String(n)\<close>). They are parameters of
  the model: every general theorem below holds for whatever the host does there.
\<close>

record host =
  StringToNumber :: "string \<Rightarrow> jsnum"
  NumberToString :: "jsnum \<Rightarrow> string"

text \<open>\<^verbatim>\<open>Number(v)\<close>: the abstract operation ToNumber on a scalar.\<close>

fun Number :: "host \<Rightarrow> jsval \<Rightarrow> jsnum" where
  "Number h JUndefined = NaN"
| "Number h JNull = Num 0"
| "Number h (JBool b) = (if b then Num 1 else Num 0)"
| "Number h (JNum n) = n"
| "Number h (JStr s) = StringToNumber h s"

text \<open>\<^verbatim>\<open>String(v)\<close>: the abstract operation ToString on a scalar.\<close>

fun String :: "host \<Rightarrow> jsval \<Rightarrow> string" where
  "String h JUndefined = ''undefined''"
| "String h JNull = ''null''"
| "String h (JBool b) = (if b then ''true'' else ''false'')"
| "String h (JNum n) = NumberToString h n"
| "String h (JStr s) = s"

definition isNaN :: "jsnum \<Rightarrow> bool" where
  "isNaN n = (n = NaN)"

text \<open>The operator \<^verbatim>\<open>a ?? b\<close>: \<open>b\<close> when \<open>a\<close> is null or undefined, else \<open>a\<close>.\<close>

definition nullish :: "jsval \<Rightarrow> jsval \<Rightarrow> jsval" where
  "nullish a b = (if a = JNull \<or> a = JUndefined then b else a)"

subsection \<open>Rows\<close>

text \<open>
  A row is the object's own properties in the order \<^verbatim>\<open>Object.keys\<close> lists them.
  \<^verbatim>\<open>r[c]\<close> is the value stored under \<open>c\<close>, or undefined.
\<close>

type_synonym row = "(string \<times> jsval) list"

definition getprop :: "row \<Rightarrow> string \<Rightarrow> jsval" where
  "getprop r c = (case map_of r c of None \<Rightarrow> JUndefined | Some v \<Rightarrow> v)"

datatype js_error = TypeError

text \<open>\<^verbatim>\<open>xs[i]\<close> on an array: undefined (here \<open>None\<close>) past the end.\<close>

definition index :: "'a list \<Rightarrow> nat \<Rightarrow> 'a option" where
  "index xs i = (if i < length xs then Some (xs ! i) else None)"

text \<open>\<^verbatim>\<open>Object.keys(obj)\<close> throws a TypeError when \<open>obj\<close> is undefined.\<close>

definition Object_keys :: "row option \<Rightarrow> js_error + string list" where
  "Object_keys obj = (case obj of None \<Rightarrow> Inl TypeError | Some r \<Rightarrow> Inr (map fst r))"

section \<open>ChartView\<close>

text \<open>
  What the component renders: a pie or a bar chart over \<open>chartData\<close>, headed by the
  numeric and the categorical column's names, or a line chart of one column.
  \<open>backgroundColor\<close> keeps the hue of each \<^verbatim>\<open>hsl(...)\<close> colour.
\<close>

record chartData =
  labels :: "string list"
  datasets_label :: string
  data :: "jsnum list"
  backgroundColor :: "nat list"

datatype element =
    Pie string string chartData
  | Bar string string chartData
  | Line string "nat list" "jsnum list"

text \<open>The helper \<^verbatim>\<open>isNumeric\<close> of the component.\<close>

definition isNumeric :: "host \<Rightarrow> jsval \<Rightarrow> bool" where
  "isNumeric h val = (val \<noteq> JNull \<and> val \<noteq> JUndefined \<and> \<not> isNaN (Number h val))"

text \<open>
  The statistics pass. For a column \<open>c\<close> the inner loop runs \<open>i\<close> from 0 below
  \<^verbatim>\<open>Math.min(dataRows.length, 50)\<close>, so \<open>dataRows ! i\<close> is always in range; the outer loop
  stores one entry per column in \<open>colStats\<close>. \<open>dataRows ! 0\<close> is read only after the guard
  of \<open>ChartView\<close> has found the array non-empty.
\<close>

record colStat =
  numericCount :: nat
  sampleValue :: jsval

definition count_numeric :: "host \<Rightarrow> row list \<Rightarrow> string \<Rightarrow> nat" where
  "count_numeric h dataRows c =
     foldl (\<lambda>n i. if isNumeric h (getprop (dataRows ! i) c) then n + 1 else n)
       0 [0..<min (length dataRows) 50]"

definition colStats_of :: "host \<Rightarrow> row list \<Rightarrow> string list \<Rightarrow> (string \<rightharpoonup> colStat)" where
  "colStats_of h dataRows cols =
     foldl (\<lambda>m c. m(c \<mapsto> \<lparr>numericCount = count_numeric h dataRows c,
                             sampleValue = getprop (dataRows ! 0) c\<rparr>))
       Map.empty cols"

text \<open>
  The variables \<open>catCol\<close> and \<open>numCol\<close> hold null (\<open>None\<close>) or a column name. The
  component tests them by truthiness (\<^verbatim>\<open>!numCol\<close>, \<^verbatim>\<open>catCol && numCol\<close>): null is falsy, and
  so is the empty string.
\<close>

definition found :: "string option \<Rightarrow> bool" where
  "found v = (case v of None \<Rightarrow> False | Some s \<Rightarrow> s \<noteq> [])"

text \<open>
  The selection loop over the columns; \<open>n\<close> is \<^verbatim>\<open>dataRows.length\<close>. Reading
  \<^verbatim>\<open>colStats[c].numericCount\<close> of a missing entry would throw.
\<close>

fun select_loop ::
  "(string \<rightharpoonup> colStat) \<Rightarrow> nat \<Rightarrow> string list \<Rightarrow> string option \<times> string option
     \<Rightarrow> js_error + (string option \<times> string option)" where
  "select_loop colStats n [] (catCol, numCol) = Inr (catCol, numCol)"
| "select_loop colStats n (c # cs) (catCol, numCol) =
     (case colStats c of
        None \<Rightarrow> Inl TypeError
      | Some st \<Rightarrow>
          if numericCount st \<ge> min 5 (n div 2)
          then select_loop colStats n cs (catCol, if \<not> found numCol then Some c else numCol)
          else select_loop colStats n cs (if \<not> found catCol then Some c else catCol, numCol))"

text \<open>
  The fallback for two columns. \<^verbatim>\<open>cols.find\<close> gives undefined when no column differs from
  \<open>numCol\<close>; undefined and null are both \<open>None\<close> here, since \<open>catCol\<close> is only ever tested
  for truthiness afterwards.
\<close>

definition fallback :: "string list \<Rightarrow> string option \<times> string option \<Rightarrow> string option \<times> string option" where
  "fallback cols cn =
     (case cn of (catCol, numCol) \<Rightarrow>
        if \<not> found catCol \<and> length cols = 2 \<and> found numCol
        then (find (\<lambda>c. Some c \<noteq> numCol) cols, numCol)
        else (catCol, numCol))"

definition chartData_of :: "host \<Rightarrow> row list \<Rightarrow> string \<Rightarrow> string \<Rightarrow> chartData" where
  "chartData_of h dataRows catCol numCol =
     (let labels = map (\<lambda>r. String h (nullish (getprop r catCol) (JStr ''''))) dataRows;
          values = map (\<lambda>r. Number h (nullish (getprop r numCol) (JNum (Num 0)))) dataRows
      in \<lparr>labels = labels, datasets_label = numCol, data = values,
          backgroundColor = map (\<lambda>i. (i * 47) mod 360) [0..<length labels]\<rparr>)"

text \<open>
  The rendering decision, lines 76 to 128 of the component. \<open>the catCol\<close> and
  \<open>the numCol\<close> are read only under \<open>found\<close>, and \<open>cols ! 0\<close> only when there is exactly
  one column. The override is null (\<open>None\<close>) or a string.
\<close>

definition render ::
  "host \<Rightarrow> row list \<Rightarrow> string list \<Rightarrow> string option \<Rightarrow> string option \<times> string option
     \<Rightarrow> element option" where
  "render h dataRows cols chartTypeOverride cn =
     (case cn of (catCol, numCol) \<Rightarrow>
        if found catCol \<and> found numCol then
          (let chartData = chartData_of h dataRows (the catCol) (the numCol) in
           if chartTypeOverride = Some ''pie''
              \<or> (length (labels chartData) \<le> 10 \<and> chartTypeOverride \<noteq> Some ''bar'')
           then Some (Pie (the numCol) (the catCol) chartData)
           else Some (Bar (the numCol) (the catCol) chartData))
        else if \<not> found catCol \<and> found numCol \<and> length cols = 1 then
          Some (Line (cols ! 0)
                  (map (\<lambda>i. i + 1) [0..<length dataRows])
                  (map (\<lambda>r. Number h (nullish (getprop r (cols ! 0)) (JNum (Num 0)))) dataRows))
        else None)"

text \<open>The columns \<open>(catCol, numCol)\<close> the component settles on, lines 47 to 74.\<close>

definition pick_cols ::
  "host \<Rightarrow> row list \<Rightarrow> string list \<Rightarrow> js_error + (string option \<times> string option)" where
  "pick_cols h dataRows cols =
     (case select_loop (colStats_of h dataRows cols) (length dataRows) cols (None, None) of
        Inl e \<Rightarrow> Inl e
      | Inr cn \<Rightarrow> Inr (fallback cols cn))"

text \<open>
  The component. \<open>dataRows\<close> is \<open>None\<close> when the property is null or undefined. The result
  is \<open>Inr None\<close> when the component returns null (no chart), \<open>Inr (Some e)\<close> when it returns
  an element, and \<open>Inl\<close> when an exception escapes.
\<close>

definition ChartView :: "host \<Rightarrow> row list option \<Rightarrow> string option \<Rightarrow> js_error + element option" where
  "ChartView h dataRows chartTypeOverride =
     (case dataRows of
        None \<Rightarrow> Inr None
      | Some rows \<Rightarrow>
          if length rows = 0 then Inr None
          else
            (case Object_keys (index rows 0) of
               Inl e \<Rightarrow> Inl e
             | Inr cols \<Rightarrow>
                 (case pick_cols h rows cols of
                    Inl e \<Rightarrow> Inl e
                  | Inr cn \<Rightarrow> Inr (render h rows cols chartTypeOverride cn))))"

subsection \<open>The specification's vocabulary\<close>

text \<open>
  The specification's words for the classification, to be compared with what the loops
  compute: a column is a numeric candidate when, among the first \<open>min rowCount 50\<close> rows, the
  number of numeric-coercible values is at least \<open>min 5 (rowCount div 2)\<close>; otherwise it is a
  categorical candidate.
\<close>

definition numeric_candidate :: "host \<Rightarrow> row list \<Rightarrow> string \<Rightarrow> bool" where
  "numeric_candidate h dataRows c =
     (length (filter (\<lambda>r. isNumeric h (getprop r c)) (take (min (length dataRows) 50) dataRows))
        \<ge> min 5 (length dataRows div 2))"

definition categorical_candidate :: "host \<Rightarrow> row list \<Rightarrow> string \<Rightarrow> bool" where
  "categorical_candidate h dataRows c = (\<not> numeric_candidate h dataRows c)"

text \<open>The values of a column in row order.\<close>

definition column_values :: "row list \<Rightarrow> string \<Rightarrow> jsval list" where
  "column_values dataRows c = map (\<lambda>r. getprop r c) dataRows"

subsection \<open>A host for the examples\<close>

text \<open>
  The concrete examples need a concrete host. This one reads the empty string as 0, a string
  of decimal digits as the number it writes, and any other string as NaN; on such strings
  that is what \<^verbatim>\<open>Number\<close> does when the string holds no sign, point, exponent, radix
  prefix, blank or \<^verbatim>\<open>Infinity\<close>. Its printing of numbers covers the three non-finite
  values only and is used by no example.
\<close>

definition digit_of :: "char \<Rightarrow> nat option" where
  "digit_of c =
     (let k = (of_char c :: nat) in if 48 \<le> k \<and> k \<le> 57 then Some (k - 48) else None)"

fun digits_value :: "nat \<Rightarrow> string \<Rightarrow> nat option" where
  "digits_value acc [] = Some acc"
| "digits_value acc (c # cs) =
     (case digit_of c of None \<Rightarrow> None | Some d \<Rightarrow> digits_value (10 * acc + d) cs)"

definition example_host :: host where
  "example_host =
     \<lparr>StringToNumber = (\<lambda>s. case digits_value 0 s of None \<Rightarrow> NaN | Some n \<Rightarrow> Num (real n)),
      NumberToString = (\<lambda>n. case n of NaN \<Rightarrow> ''NaN'' | PosInf \<Rightarrow> ''Infinity''
                                  | NegInf \<Rightarrow> ''-Infinity'' | Num r \<Rightarrow> [])\<rparr>"

section \<open>The client session identifier\<close>

text \<open>
  \<^verbatim>\<open>getSessionId\<close> of the chat page reads and writes the browser's \<^verbatim>\<open>localStorage\<close> and
  draws random identifiers. The browser is explicit state:
  \<^item> \<open>localStorage\<close> is \<open>None\<close> when touching the storage throws (storage disabled), else
    the stored items;
  \<^item> \<open>setItem_fails\<close> says that writing throws (quota exhausted);
  \<^item> \<open>has_randomUUID\<close> says whether \<^verbatim>\<open>crypto.randomUUID\<close> exists (\<^verbatim>\<open>crypto\<close> itself exists
    in every browser able to load the page's module);
  \<^item> \<open>randomUUID\<close> and \<open>random36\<close> are the streams the two generators draw from, the second
    being \<^verbatim>\<open>Math.random().toString(36).slice(2)\<close>; \<open>draws\<close> counts what was drawn.
\<close>

record browser =
  localStorage :: "(string \<rightharpoonup> string) option"
  setItem_fails :: bool
  has_randomUUID :: bool
  randomUUID :: "nat \<Rightarrow> string"
  random36 :: "nat \<Rightarrow> string"
  draws :: nat

datatype 'a completion = Return 'a | Throw

text \<open>The template \<^verbatim>\<open>`sid-${Math.random().toString(36).slice(2)}`\<close>.\<close>

definition sid_random :: "browser \<Rightarrow> string \<times> browser" where
  "sid_random b = (''sid-'' @ random36 b (draws b), b\<lparr>draws := draws b + 1\<rparr>)"

text \<open>
  The fresh identifier of line 10: \<^verbatim>\<open>crypto.randomUUID()\<close> where it exists, the random
  template otherwise.
\<close>

definition new_sid :: "browser \<Rightarrow> string \<times> browser" where
  "new_sid b =
     (if has_randomUUID b
      then (randomUUID b (draws b), b\<lparr>draws := draws b + 1\<rparr>)
      else sid_random b)"

text \<open>The body of the \<^verbatim>\<open>try\<close> block; \<^verbatim>\<open>!sid\<close> is the truthiness test \<open>found\<close>.\<close>

definition try_block :: "browser \<Rightarrow> string completion \<times> browser" where
  "try_block b =
     (case localStorage b of
        None \<Rightarrow> (Throw, b)
      | Some items \<Rightarrow>
          (let sid = items ''agentic_session_id'' in
           if \<not> found sid then
             (case new_sid b of
                (sid', b') \<Rightarrow>
                  if setItem_fails b' then (Throw, b')
                  else (Return sid',
                        b'\<lparr>localStorage := Some (items(''agentic_session_id'' \<mapsto> sid'))\<rparr>))
           else (Return (the sid), b)))"

definition getSessionId :: "browser \<Rightarrow> string \<times> browser" where
  "getSessionId b =
     (case try_block b of
        (Return sid, b') \<Rightarrow> (sid, b')
      | (Throw, b') \<Rightarrow> sid_random b')"

text \<open>The session id the browser holds, when it holds one that \<^verbatim>\<open>getSessionId\<close> accepts.\<close>

definition persisted :: "browser \<Rightarrow> string option" where
  "persisted b =
     (case localStorage b of
        None \<Rightarrow> None
      | Some items \<Rightarrow> if found (items ''agentic_session_id'') then items ''agentic_session_id'' else None)"

text \<open>Storage that can be read and written.\<close>

definition working_storage :: "browser \<Rightarrow> bool" where
  "working_storage b = (localStorage b \<noteq> None \<and> \<not> setItem_fails b)"

text \<open>\<^verbatim>\<open>crypto.randomUUID\<close> returns a string of 36 characters.\<close>

definition uuid_source :: "browser \<Rightarrow> bool" where
  "uuid_source b = (\<forall>k. length (randomUUID b k) = 36)"

text \<open>The browser after \<open>k\<close> calls of \<^verbatim>\<open>getSessionId\<close>.\<close>

fun after_calls :: "nat \<Rightarrow> browser \<Rightarrow> browser" where
  "after_calls 0 b = b"
| "after_calls (Suc k) b = after_calls k (snd (getSessionId b))"

section \<open>The startup scripts\<close>

text \<open>
  The two startup scripts are Bash run under \<^verbatim>\<open>set -e\<close>. A command is a function from the
  world it runs in to what it does (its events) and how it ends: with an exit status, by
  ending the shell, or by replacing the shell with another program (\<^verbatim>\<open>exec\<close>). The exit
  status of an external program is a parameter of the world; \<^verbatim>\<open>echo\<close> and \<^verbatim>\<open>sleep\<close>
  succeed.
\<close>

record world =
  environ :: "string \<rightharpoonup> string"
  args :: "string list"
  exit_status :: "string list \<Rightarrow> nat"

datatype event = Out string | Slept nat | Ran "string list" | Launched "string list"

datatype ending = Status nat | Exited nat | Replaced

type_synonym sh = "world \<Rightarrow> event list \<times> ending"

definition echo :: "string \<Rightarrow> sh" where
  "echo s w = ([Out s], Status 0)"

definition sleep :: "nat \<Rightarrow> sh" where
  "sleep n w = ([Slept n], Status 0)"

definition program :: "string list \<Rightarrow> sh" where
  "program argv w = ([Ran argv], Status (exit_status w argv))"

text \<open>\<^verbatim>\<open>exec\<close> with no command word does nothing and succeeds.\<close>

definition exec :: "string list \<Rightarrow> sh" where
  "exec argv w = (if argv = [] then ([], Status 0) else ([Launched argv], Replaced))"

text \<open>\<^verbatim>\<open>a || b\<close>: \<open>b\<close> runs when \<open>a\<close> fails; a failure of \<open>a\<close> does not end the shell.\<close>

definition or_else :: "sh \<Rightarrow> sh \<Rightarrow> sh" where
  "or_else a b w =
     (case a w of
        (ev, Status n) \<Rightarrow>
          if n = 0 then (ev, Status 0) else (case b w of (ev', e) \<Rightarrow> (ev @ ev', e))
      | (ev, e) \<Rightarrow> (ev, e))"

text \<open>A sequence of commands under \<^verbatim>\<open>set -e\<close>: the first failing command ends the shell.\<close>

fun script :: "sh list \<Rightarrow> sh" where
  "script [] w = ([], Status 0)"
| "script (c # cs) w =
     (case c w of
        (ev, Status n) \<Rightarrow>
          if n = 0 then (case script cs w of (ev', e) \<Rightarrow> (ev @ ev', e)) else (ev, Exited n)
      | (ev, e) \<Rightarrow> (ev, e))"

text \<open>\<^verbatim>\<open>if cond; then body; fi\<close>: status 0 when the condition is false.\<close>

definition if_then :: "(world \<Rightarrow> bool) \<Rightarrow> sh \<Rightarrow> sh" where
  "if_then cond body w = (if cond w then body w else ([], Status 0))"

text \<open>\<^verbatim>\<open>${VAR:-default}\<close>: the default when the variable is unset or empty.\<close>

definition param_default :: "world \<Rightarrow> string \<Rightarrow> string \<Rightarrow> string" where
  "param_default w var dflt =
     (case environ w var of None \<Rightarrow> dflt | Some v \<Rightarrow> if v = [] then dflt else v)"

text \<open>The container entry point (the unnamed script with the toggle).\<close>

definition entrypoint :: sh where
  "entrypoint =
     script
       [if_then (\<lambda>w. param_default w ''REINDEX_KB'' ''true'' = ''true'')
          (script
             [echo ''Reindexing KB...'',
              or_else (program [''/app/scripts/reindex_kb.sh'', ''/app/knowledge_base''])
                      (echo ''reindex failed, continuing...'')]),
        (\<lambda>w. exec (args w) w)]"

text \<open>\<^verbatim>\<open>start.sh\<close>; the dash of its failure message is three bytes of UTF-8.\<close>

definition start_sh :: sh where
  "start_sh =
     script
       [echo ''Waiting for Qdrant to be ready...'',
        sleep 5,
        echo ''Reindexing Knowledge Base...'',
        or_else (program [''./scripts/reindex_kb.sh''])
                (echo (''Reindex failed '' @ [CHR 0xE2, CHR 0x80, CHR 0x94] @ '' continuing startup.'')),
        echo ''Starting backend...'',
        exec [''uvicorn'', ''app:app'', ''--host'', ''0.0.0.0'', ''--port'', ''8000'']]"

section \<open>Example environments\<close>

text \<open>
  A browser with empty, working storage whose \<^verbatim>\<open>crypto.randomUUID\<close> hands out one UUID, and
  one that already holds a session id.
\<close>

definition fresh_browser :: browser where
  "fresh_browser =
     \<lparr>localStorage = Some Map.empty, setItem_fails = False, has_randomUUID = True,
      randomUUID = (\<lambda>k. ''123e4567-e89b-42d3-a456-426614174000''),
      random36 = (\<lambda>k. ''k3j9x2''), draws = 0\<rparr>"

definition returning_browser :: browser where
  "returning_browser =
     \<lparr>localStorage = Some [''agentic_session_id'' \<mapsto> ''sid-k3j9x2''], setItem_fails = False,
      has_randomUUID = False,
      randomUUID = (\<lambda>k. ''123e4567-e89b-42d3-a456-426614174000''),
      random36 = (\<lambda>k. ''k3j9x2''), draws = 0\<rparr>"

text \<open>An older browser, without \<^verbatim>\<open>crypto.randomUUID\<close>, with empty, working storage.\<close>

definition legacy_browser :: browser where
  "legacy_browser =
     \<lparr>localStorage = Some Map.empty, setItem_fails = False, has_randomUUID = False,
      randomUUID = (\<lambda>k. ''123e4567-e89b-42d3-a456-426614174000''),
      random36 = (\<lambda>k. ''k3j9x2''), draws = 4\<rparr>"

text \<open>
  A container started with the service's command line in which the reindex job fails, and
  one started with \<^verbatim>\<open>REINDEX_KB=false\<close> in which it would succeed.
\<close>

definition failing_world :: world where
  "failing_world =
     \<lparr>environ = Map.empty,
      args = [''uvicorn'', ''app:app'', ''--host'', ''0.0.0.0'', ''--port'', ''8000''],
      exit_status = (\<lambda>argv. 1)\<rparr>"

definition toggle_off_world :: world where
  "toggle_off_world =
     \<lparr>environ = [''REINDEX_KB'' \<mapsto> ''false''],
      args = [''uvicorn'', ''app:app'', ''--host'', ''0.0.0.0'', ''--port'', ''8000''],
      exit_status = (\<lambda>argv. 0)\<rparr>"

section \<open>The loops of ChartView\<close>

text \<open>The counting loop counts the numeric values among the first 50 rows.\<close>

lemma foldl_count_upt:
  "k \<le> length xs \<Longrightarrow>
   foldl (\<lambda>n i. if P (xs ! i) then n + 1 else n) a [0..<k] = a + length (filter P (take k xs))"
proof (induction k)
  case 0
  then show ?case by simp
next
  case (Suc k)
  then have "take (Suc k) xs = take k xs @ [xs ! k]"
    by (simp add: take_Suc_conv_app_nth)
  with Suc show ?case by simp
qed

lemma count_numeric_filter:
  "count_numeric h rows c =
     length (filter (\<lambda>r. isNumeric h (getprop r c)) (take (min (length rows) 50) rows))"
  unfolding count_numeric_def
  using foldl_count_upt [of "min (length rows) 50" rows "\<lambda>r. isNumeric h (getprop r c)" 0]
  by simp

text \<open>The statistics table holds an entry for each column of \<open>cols\<close>, and no other.\<close>

lemma foldl_map_upd:
  "foldl (\<lambda>m c. m(c \<mapsto> f c)) m0 cols = (\<lambda>c. if c \<in> set cols then Some (f c) else m0 c)"
  by (induction cols arbitrary: m0) (auto simp: fun_eq_iff)

lemma colStats_of_eq:
  "colStats_of h rows cols c =
     (if c \<in> set cols
      then Some \<lparr>numericCount = count_numeric h rows c, sampleValue = getprop (rows ! 0) c\<rparr>
      else None)"
  unfolding colStats_of_def by (simp add: foldl_map_upd)

lemma found_simps:
  "found None = False" "found (Some s) = (s \<noteq> [])"
  by (simp_all add: found_def)

text \<open>
  One step of the selection loop, over the table the statistics pass built: the test of the
  loop is the specification's numeric-candidate test.
\<close>

lemma select_loop_step:
  "c \<in> set cols \<Longrightarrow>
   select_loop (colStats_of h rows cols) (length rows) (c # cs) (catCol, numCol) =
     (if numeric_candidate h rows c
      then select_loop (colStats_of h rows cols) (length rows) cs
             (catCol, if found numCol then numCol else Some c)
      else select_loop (colStats_of h rows cols) (length rows) cs
             (if found catCol then catCol else Some c, numCol))"
  by (simp add: colStats_of_eq numeric_candidate_def count_numeric_filter)

text \<open>The selection loop never reads a missing entry.\<close>

lemma select_loop_total:
  "set cs \<subseteq> set cols \<Longrightarrow>
   \<exists>cn'. select_loop (colStats_of h rows cols) (length rows) cs cn = Inr cn'"
proof (induction cs arbitrary: cn)
  case Nil
  then show ?case by (cases cn) simp
next
  case (Cons c cs)
  then show ?case by (cases cn) (simp add: select_loop_step del: select_loop.simps)
qed

text \<open>
  When no column is named by the empty string, the selection loop is a first-match search in
  column order.
\<close>

lemma select_loop_first_match:
  "set cs \<subseteq> set cols \<Longrightarrow> [] \<notin> set cs \<Longrightarrow> catCol \<noteq> Some [] \<Longrightarrow> numCol \<noteq> Some [] \<Longrightarrow>
   select_loop (colStats_of h rows cols) (length rows) cs (catCol, numCol) =
     Inr (if found catCol then catCol else find (categorical_candidate h rows) cs,
          if found numCol then numCol else find (numeric_candidate h rows) cs)"
proof (induction cs arbitrary: catCol numCol)
  case Nil
  then show ?case by (cases catCol; cases numCol) (simp_all add: found_simps)
next
  case (Cons c cs)
  from Cons.prems have c: "c \<in> set cols" "c \<noteq> []"
    and cs: "set cs \<subseteq> set cols" "[] \<notin> set cs" by auto
  have fc: "found (Some c)" using c by (simp add: found_simps)
  show ?case
  proof (cases "numeric_candidate h rows c")
    case True
    let ?n = "if found numCol then numCol else Some c"
    have n: "?n \<noteq> Some []" "found ?n" using Cons.prems c fc by auto
    have "select_loop (colStats_of h rows cols) (length rows) (c # cs) (catCol, numCol)
            = select_loop (colStats_of h rows cols) (length rows) cs (catCol, ?n)"
      using True c by (simp add: select_loop_step del: select_loop.simps)
    also have "\<dots> = Inr (if found catCol then catCol else find (categorical_candidate h rows) cs, ?n)"
      using Cons.IH [OF cs Cons.prems(3) n(1)] n(2) by simp
    finally show ?thesis using True by (simp add: categorical_candidate_def)
  next
    case False
    let ?k = "if found catCol then catCol else Some c"
    have k: "?k \<noteq> Some []" "found ?k" using Cons.prems c fc by auto
    have "select_loop (colStats_of h rows cols) (length rows) (c # cs) (catCol, numCol)
            = select_loop (colStats_of h rows cols) (length rows) cs (?k, numCol)"
      using False c by (simp add: select_loop_step del: select_loop.simps)
    also have "\<dots> = Inr (?k, if found numCol then numCol else find (numeric_candidate h rows) cs)"
      using Cons.IH [OF cs k(1) Cons.prems(4)] k(2) by simp
    finally show ?thesis using False by (simp add: categorical_candidate_def)
  qed
qed

text \<open>The component unfolded on a non-empty array, and its freedom from exceptions.\<close>

lemma ChartView_rows:
  "ChartView h (Some (r # rs)) ov =
     (case pick_cols h (r # rs) (map fst r) of
        Inl e \<Rightarrow> Inl e
      | Inr cn \<Rightarrow> Inr (render h (r # rs) (map fst r) ov cn))"
  by (simp add: ChartView_def Object_keys_def index_def)

lemma pick_cols_total:
  "\<exists>cn. pick_cols h rows cols = Inr cn"
proof -
  obtain cn' where "select_loop (colStats_of h rows cols) (length rows) cols (None, None) = Inr cn'"
    using select_loop_total [of cols cols h rows "(None, None)"] by auto
  then show ?thesis by (simp add: pick_cols_def)
qed

lemma ChartView_no_exception:
  "\<exists>res. ChartView h dataRows ov = Inr res"
proof (cases dataRows)
  case None
  then show ?thesis by (simp add: ChartView_def)
next
  case (Some rows)
  show ?thesis
  proof (cases rows)
    case Nil
    with Some show ?thesis by (simp add: ChartView_def)
  next
    case (Cons r rs)
    obtain cn where "pick_cols h (r # rs) (map fst r) = Inr cn"
      using pick_cols_total by blast
    with Some Cons show ?thesis by (simp add: ChartView_rows)
  qed
qed

lemmas ChartView_eval =
  ChartView_rows pick_cols_def colStats_of_eq count_numeric_filter isNumeric_def isNaN_def
  getprop_def found_simps fallback_def render_def chartData_of_def nullish_def Let_def
  example_host_def digit_of_def

text \<open>
  C4. For the empty row set, and for an absent (null or undefined) row set, the component
  returns no chart and throws nothing: the guard returns null before
  \<^verbatim>\<open>Object.keys(dataRows[0])\<close>, which would throw on the empty array, is reached.
\<close>

theorem C4_empty_no_chart:
  "ChartView h None ov = Inr None \<and> ChartView h (Some []) ov = Inr None"
  by (simp add: ChartView_def)

section \<open>The rendering decision\<close>

lemma render_pie_bar:
  "c \<noteq> [] \<Longrightarrow> n \<noteq> [] \<Longrightarrow>
   render h rows cols ov (Some c, Some n) =
     Some (if ov = Some ''pie'' \<or> (length rows \<le> 10 \<and> ov \<noteq> Some ''bar'')
           then Pie n c (chartData_of h rows c n)
           else Bar n c (chartData_of h rows c n))"
  by (simp add: render_def found_simps Let_def chartData_of_def)

lemma render_no_pair:
  "\<not> (found catCol \<and> found numCol) \<Longrightarrow>
   render h rows cols ov (catCol, numCol) = render h rows cols ov' (catCol, numCol)"
  by (auto simp add: render_def)

lemma render_line_override:
  "render h rows cols (Some ''line'') cn = render h rows cols None cn"
  by (cases cn) (simp add: render_def Let_def)

lemma pick_cols_single:
  "c \<noteq> [] \<Longrightarrow> numeric_candidate h rows c \<Longrightarrow> pick_cols h rows [c] = Inr (None, Some c)"
  using select_loop_first_match [of "[c]" "[c]" None None h rows]
  by (simp add: pick_cols_def fallback_def found_simps categorical_candidate_def)

lemma single_column_line:
  assumes "map fst r = [c]" and "c \<noteq> []" and "numeric_candidate h (r # rs) c"
  shows "ChartView h (Some (r # rs)) ov =
           Inr (Some (Line c [1..<Suc (length (r # rs))]
                  (map (\<lambda>v. Number h (nullish v (JNum (Num 0)))) (column_values (r # rs) c))))"
  using assms pick_cols_single [of c h "r # rs"]
  by (simp add: ChartView_rows render_def found_simps map_Suc_upt column_values_def
           del: upt_Suc)

text \<open>
  When no column is named by the empty string, the columns the component picks are the first
  categorical candidate and the first numeric candidate, provided both exist.
\<close>

lemma pick_cols_first_match:
  assumes "[] \<notin> set cols"
    and "find (categorical_candidate h rows) cols = Some c"
    and "find (numeric_candidate h rows) cols = Some n"
  shows "pick_cols h rows cols = Inr (Some c, Some n)"
proof -
  have "c \<in> set cols" using assms(2) by (auto simp: find_Some_iff)
  with assms(1) have "c \<noteq> []" by auto
  then show ?thesis
    using assms select_loop_first_match [of cols cols None None h rows]
    by (simp add: pick_cols_def fallback_def found_simps)
qed

text \<open>
  The decision between pie and bar. Whenever the component has found both a categorical column \<open>catCol = c\<close> and a numeric
  column \<open>numCol = n\<close> (the test \<^verbatim>\<open>catCol && numCol\<close> of line 82), it returns a pie chart exactly
  when the override is \<^verbatim>\<open>"pie"\<close>, or the category count, which is the number of rows, is at
  most 10 and the override is not \<^verbatim>\<open>"bar"\<close>; otherwise it returns a bar chart over the same
  data. With no override the chart is a pie up to 10 rows and a bar from 11 rows on. The rows
  \<^verbatim>\<open>[{block:"A",seats:10},{block:"B",seats:5}]\<close> give a pie chart with categories A, B and
  values 10, 5, on every host that reads neither \<^verbatim>\<open>"A"\<close> nor \<^verbatim>\<open>"B"\<close> as a number.
  When no column is named by the empty string, \<open>c\<close> and \<open>n\<close> are found as soon as a
  categorical and a numeric candidate exist, and are the first of each kind.
\<close>

lemma pie_or_bar_decision:
  "(pick_cols h (r # rs) (map fst r) = Inr (Some c, Some n) \<and> c \<noteq> [] \<and> n \<noteq> [] \<longrightarrow>
      ChartView h (Some (r # rs)) ov =
        Inr (Some (if ov = Some ''pie'' \<or> (length (r # rs) \<le> 10 \<and> ov \<noteq> Some ''bar'')
                   then Pie n c (chartData_of h (r # rs) c n)
                   else Bar n c (chartData_of h (r # rs) c n)))
      \<and> ChartView h (Some (r # rs)) None =
        Inr (Some (if length (r # rs) \<le> 10
                   then Pie n c (chartData_of h (r # rs) c n)
                   else Bar n c (chartData_of h (r # rs) c n)))
      \<and> length (labels (chartData_of h (r # rs) c n)) = length (r # rs))
   \<and> ([] \<notin> set (map fst r)
        \<and> find (categorical_candidate h (r # rs)) (map fst r) = Some c
        \<and> find (numeric_candidate h (r # rs)) (map fst r) = Some n \<longrightarrow>
      pick_cols h (r # rs) (map fst r) = Inr (Some c, Some n) \<and> c \<noteq> [] \<and> n \<noteq> [])
   \<and> (StringToNumber h ''A'' = NaN \<and> StringToNumber h ''B'' = NaN \<longrightarrow>
      ChartView h
        (Some [[(''block'', JStr ''A''), (''seats'', JNum (Num 10))],
               [(''block'', JStr ''B''), (''seats'', JNum (Num 5))]]) None =
        Inr (Some (Pie ''seats'' ''block''
               \<lparr>labels = [''A'', ''B''], datasets_label = ''seats'',
                data = [Num 10, Num 5], backgroundColor = [0, 47]\<rparr>)))"
proof (intro conjI impI)
  assume a: "pick_cols h (r # rs) (map fst r) = Inr (Some c, Some n) \<and> c \<noteq> [] \<and> n \<noteq> []"
  then show "ChartView h (Some (r # rs)) ov =
        Inr (Some (if ov = Some ''pie'' \<or> (length (r # rs) \<le> 10 \<and> ov \<noteq> Some ''bar'')
                   then Pie n c (chartData_of h (r # rs) c n)
                   else Bar n c (chartData_of h (r # rs) c n)))"
    by (simp add: ChartView_rows render_pie_bar)
  from a show "ChartView h (Some (r # rs)) None =
        Inr (Some (if length (r # rs) \<le> 10
                   then Pie n c (chartData_of h (r # rs) c n)
                   else Bar n c (chartData_of h (r # rs) c n)))"
    by (simp add: ChartView_rows render_pie_bar)
  show "length (labels (chartData_of h (r # rs) c n)) = length (r # rs)"
    by (simp add: chartData_of_def Let_def)
next
  assume k: "[] \<notin> set (map fst r)
        \<and> find (categorical_candidate h (r # rs)) (map fst r) = Some c
        \<and> find (numeric_candidate h (r # rs)) (map fst r) = Some n"
  then show "pick_cols h (r # rs) (map fst r) = Inr (Some c, Some n)"
    by (simp add: pick_cols_first_match)
  from k have e: "[] \<notin> set (map fst r)" by simp
  from k have "c \<in> set (map fst r)" and "n \<in> set (map fst r)"
    by (auto simp: find_Some_iff)
  with e show "c \<noteq> []" and "n \<noteq> []" by blast+
next
  assume "StringToNumber h ''A'' = NaN \<and> StringToNumber h ''B'' = NaN"
  then show "ChartView h
        (Some [[(''block'', JStr ''A''), (''seats'', JNum (Num 10))],
               [(''block'', JStr ''B''), (''seats'', JNum (Num 5))]]) None =
        Inr (Some (Pie ''seats'' ''block''
               \<lparr>labels = [''A'', ''B''], datasets_label = ''seats'',
                data = [Num 10, Num 5], backgroundColor = [0, 47]\<rparr>))"
    by (simp add: ChartView_eval)
qed

text \<open>
  Ten rows with a text column and a number column give a pie chart, eleven give a bar chart,
  and the example host draws the block/seats pie.
\<close>

lemma pie_or_bar_examples:
  "ChartView example_host
     (Some ([(''c'', JStr ''x''), (''n'', JNum (Num 1))]
            # replicate 9 [(''c'', JStr ''x''), (''n'', JNum (Num 1))])) None
   = Inr (Some (Pie ''n'' ''c''
       (chartData_of example_host
          ([(''c'', JStr ''x''), (''n'', JNum (Num 1))]
            # replicate 9 [(''c'', JStr ''x''), (''n'', JNum (Num 1))]) ''c'' ''n'')))
   \<and> ChartView example_host
     (Some ([(''c'', JStr ''x''), (''n'', JNum (Num 1))]
            # replicate 10 [(''c'', JStr ''x''), (''n'', JNum (Num 1))])) None
   = Inr (Some (Bar ''n'' ''c''
       (chartData_of example_host
          ([(''c'', JStr ''x''), (''n'', JNum (Num 1))]
            # replicate 10 [(''c'', JStr ''x''), (''n'', JNum (Num 1))]) ''c'' ''n'')))
   \<and> ChartView example_host
        (Some [[(''block'', JStr ''A''), (''seats'', JNum (Num 10))],
               [(''block'', JStr ''B''), (''seats'', JNum (Num 5))]]) None =
        Inr (Some (Pie ''seats'' ''block''
               \<lparr>labels = [''A'', ''B''], datasets_label = ''seats'',
                data = [Num 10, Num 5], backgroundColor = [0, 47]\<rparr>))"
proof -
  let ?r = "[(''c'', JStr ''x''), (''n'', JNum (Num 1))]"
  have p10: "pick_cols example_host (?r # replicate 9 ?r) (map fst ?r) = Inr (Some ''c'', Some ''n'')
             \<and> ''c'' \<noteq> [] \<and> ''n'' \<noteq> []"
    by (simp add: ChartView_eval)
  have ab: "StringToNumber example_host ''A'' = NaN \<and> StringToNumber example_host ''B'' = NaN"
    by (simp add: example_host_def digit_of_def)
  have fm: "[] \<notin> set (map fst ?r)
        \<and> find (categorical_candidate example_host (?r # replicate 10 ?r)) (map fst ?r) = Some ''c''
        \<and> find (numeric_candidate example_host (?r # replicate 10 ?r)) (map fst ?r) = Some ''n''"
    by (simp add: categorical_candidate_def numeric_candidate_def ChartView_eval)
  show ?thesis
    using pie_or_bar_decision [of example_host ?r "replicate 9 ?r" "''c''" "''n''" None] p10
          pie_or_bar_decision [of example_host ?r "replicate 10 ?r" "''c''" "''n''" None] fm ab
    by simp
qed

text \<open>
  C3 (as amended). For every non-empty result set whose rows have exactly one column, with
  a non-empty name, that is a numeric candidate, the component returns a line chart, whatever
  the override: its x values are the row numbers 1 to N, and its y values are the column's
  values in row order, each passed through \<^verbatim>\<open>Number(v ?? 0)\<close>. So a null or undefined value
  is drawn as 0 and a string as the number it reads as; when every value is a number, the y
  values are the column's values themselves. The rows \<^verbatim>\<open>[{count:3},{count:7},{count:2}]\<close>
  give x = 1, 2, 3 and y = 3, 7, 2.
\<close>

theorem C3_line_chart:
  "(map fst r = [c] \<and> c \<noteq> [] \<and> numeric_candidate h (r # rs) c \<longrightarrow>
      ChartView h (Some (r # rs)) ov =
        Inr (Some (Line c [1..<Suc (length (r # rs))]
               (map (\<lambda>v. Number h (nullish v (JNum (Num 0)))) (column_values (r # rs) c))))
      \<and> (column_values (r # rs) c = map JNum ys \<longrightarrow>
           ChartView h (Some (r # rs)) ov = Inr (Some (Line c [1..<Suc (length (r # rs))] ys))))
   \<and> ChartView h
        (Some [[(''count'', JNum (Num 3))], [(''count'', JNum (Num 7))], [(''count'', JNum (Num 2))]]) ov
      = Inr (Some (Line ''count'' [1, 2, 3] [Num 3, Num 7, Num 2]))"
proof (intro conjI impI)
  assume a: "map fst r = [c] \<and> c \<noteq> [] \<and> numeric_candidate h (r # rs) c"
  then show l: "ChartView h (Some (r # rs)) ov =
        Inr (Some (Line c [1..<Suc (length (r # rs))]
               (map (\<lambda>v. Number h (nullish v (JNum (Num 0)))) (column_values (r # rs) c))))"
    by (simp add: single_column_line)
  assume "column_values (r # rs) c = map JNum ys"
  then have "map (\<lambda>v. Number h (nullish v (JNum (Num 0)))) (column_values (r # rs) c) = ys"
    by (simp add: nullish_def comp_def)
  with l show "ChartView h (Some (r # rs)) ov = Inr (Some (Line c [1..<Suc (length (r # rs))] ys))"
    by simp
next
  show "ChartView h
        (Some [[(''count'', JNum (Num 3))], [(''count'', JNum (Num 7))], [(''count'', JNum (Num 2))]]) ov
      = Inr (Some (Line ''count'' [1, 2, 3] [Num 3, Num 7, Num 2]))"
    by (simp add: ChartView_eval)
qed

text \<open>
  A column holding a number, a null and a numeric string is drawn as 1, 0, 3; a column of
  numbers is drawn as it is, also under the override \<^verbatim>\<open>"bar"\<close>.
\<close>

theorem C3_line_chart_witness:
  "ChartView example_host
     (Some [[(''count'', JNum (Num 1))], [(''count'', JNull)], [(''count'', JStr ''3'')]]) None
     = Inr (Some (Line ''count'' [1, 2, 3] [Num 1, Num 0, Num 3]))
   \<and> ChartView example_host (Some [[(''n'', JNum (Num 4))], [(''n'', JNum (Num 5))]]) (Some ''bar'')
     = Inr (Some (Line ''n'' [1, 2] [Num 4, Num 5]))"
proof -
  let ?r = "[(''count'', JNum (Num 1))]" and ?rs = "[[(''count'', JNull)], [(''count'', JStr ''3'')]]"
  let ?q = "[(''n'', JNum (Num 4))]" and ?qs = "[[(''n'', JNum (Num 5))]]"
  have a: "map fst ?r = [''count''] \<and> ''count'' \<noteq> []
             \<and> numeric_candidate example_host (?r # ?rs) ''count''"
    by (simp add: numeric_candidate_def ChartView_eval)
  have b: "map fst ?q = [''n''] \<and> ''n'' \<noteq> [] \<and> numeric_candidate example_host (?q # ?qs) ''n''"
    by (simp add: numeric_candidate_def ChartView_eval)
  have c: "column_values (?q # ?qs) ''n'' = map JNum [Num 4, Num 5]"
    by (simp add: column_values_def getprop_def)
  have v: "map (\<lambda>v. Number example_host (nullish v (JNum (Num 0))))
             (column_values (?r # ?rs) ''count'') = [Num 1, Num 0, Num 3]"
    by (simp add: column_values_def ChartView_eval)
  have u3: "[1..<Suc (length (?r # ?rs))] = [1, 2, 3]" by (simp add: upt_rec)
  have u2: "[1..<Suc (length (?q # ?qs))] = [1, 2]" by (simp add: upt_rec)
  have "ChartView example_host (Some (?r # ?rs)) None =
        Inr (Some (Line ''count'' [1..<Suc (length (?r # ?rs))]
               (map (\<lambda>v. Number example_host (nullish v (JNum (Num 0))))
                  (column_values (?r # ?rs) ''count''))))"
    using C3_line_chart [of ?r "''count''" example_host ?rs None "[]"] a by blast
  then have 1: "ChartView example_host (Some (?r # ?rs)) None
                  = Inr (Some (Line ''count'' [1, 2, 3] [Num 1, Num 0, Num 3]))"
    by (simp only: u3 v)
  have "ChartView example_host (Some (?q # ?qs)) (Some ''bar'')
          = Inr (Some (Line ''n'' [1..<Suc (length (?q # ?qs))] [Num 4, Num 5]))"
    using C3_line_chart [of ?q "''n''" example_host ?qs "Some ''bar''" "[Num 4, Num 5]"] b c
    by blast
  then have 2: "ChartView example_host (Some (?q # ?qs)) (Some ''bar'')
                  = Inr (Some (Line ''n'' [1, 2] [Num 4, Num 5]))"
    by (simp only: u2)
  from 1 2 show ?thesis by blast
qed

text \<open>
  The claim as first stated has the y values be the column's values. On
  \<^verbatim>\<open>[{count:1},{count:null},{count:3}]\<close> the column is a numeric candidate (two numeric values
  against a threshold of 1), and the line chart draws 1, 0, 3: its second y value is 0, the
  column's second value is null.
\<close>

theorem C3_values_coerced_counterexample:
  "ChartView example_host
     (Some [[(''count'', JNum (Num 1))], [(''count'', JNull)], [(''count'', JNum (Num 3))]]) None
     = Inr (Some (Line ''count'' [1, 2, 3] [Num 1, Num 0, Num 3]))
   \<and> map JNum [Num 1, Num 0, Num 3]
       \<noteq> column_values
           [[(''count'', JNum (Num 1))], [(''count'', JNull)], [(''count'', JNum (Num 3))]] ''count''"
  by (simp add: ChartView_eval column_values_def)

text \<open>The data of a pie or bar chart are those of the picked columns.\<close>

lemma render_chart_data:
  assumes "render h rows cols ov cn = Some e" and "e = Pie n c d \<or> e = Bar n c d"
  shows "cn = (Some c, Some n) \<and> c \<noteq> [] \<and> n \<noteq> [] \<and> d = chartData_of h rows c n"
proof -
  obtain catCol numCol where cn: "cn = (catCol, numCol)" by (cases cn)
  show ?thesis
  proof (cases "found catCol \<and> found numCol")
    case True
    then obtain c' n' where s: "catCol = Some c'" "numCol = Some n'" "c' \<noteq> []" "n' \<noteq> []"
      by (cases catCol; cases numCol) (auto simp: found_simps)
    with assms cn show ?thesis
      by (auto simp: render_pie_bar split: if_splits)
  next
    case False
    with assms cn show ?thesis
      by (auto simp: render_def split: if_splits)
  qed
qed

text \<open>
  C5. Whenever the component returns a pie or a bar chart, headed by the numeric column \<open>n\<close>
  and the categorical column \<open>c\<close> it picked, the chart has one label and one value per row,
  the label of every row whose categorical value is null or undefined is the empty string, and
  the value of every row whose numeric value is null or undefined is the number 0.
\<close>

theorem C5_null_label_and_value:
  assumes "ChartView h (Some rows) ov = Inr (Some e)"
    and "e = Pie n c d \<or> e = Bar n c d"
    and "i < length rows"
  shows "pick_cols h rows (map fst (hd rows)) = Inr (Some c, Some n)
       \<and> length (labels d) = length rows \<and> length (data d) = length rows
       \<and> (getprop (rows ! i) c = JNull \<or> getprop (rows ! i) c = JUndefined \<longrightarrow> labels d ! i = [])
       \<and> (getprop (rows ! i) n = JNull \<or> getprop (rows ! i) n = JUndefined \<longrightarrow> data d ! i = Num 0)"
proof -
  from assms(3) obtain r rs where rows: "rows = r # rs" by (cases rows) auto
  obtain cn where cn: "pick_cols h (r # rs) (map fst r) = Inr cn"
    using pick_cols_total by blast
  with assms(1) rows have "render h (r # rs) (map fst r) ov cn = Some e"
    by (simp add: ChartView_rows)
  from render_chart_data [OF this assms(2)]
  have k: "cn = (Some c, Some n)" and d: "d = chartData_of h rows c n"
    using rows by auto
  have p: "pick_cols h rows (map fst (hd rows)) = Inr (Some c, Some n)"
    using cn k rows by simp
  have len: "length (labels d) = length rows" "length (data d) = length rows"
    by (simp_all add: d chartData_of_def Let_def)
  have lab: "labels d ! i = String h (nullish (getprop (rows ! i) c) (JStr []))"
    using assms(3) by (simp add: d chartData_of_def Let_def)
  have val: "data d ! i = Number h (nullish (getprop (rows ! i) n) (JNum (Num 0)))"
    using assms(3) by (simp add: d chartData_of_def Let_def)
  have l0: "getprop (rows ! i) c = JNull \<or> getprop (rows ! i) c = JUndefined \<longrightarrow> labels d ! i = []"
    by (auto simp: lab nullish_def)
  have v0: "getprop (rows ! i) n = JNull \<or> getprop (rows ! i) n = JUndefined \<longrightarrow> data d ! i = Num 0"
    by (auto simp: val nullish_def)
  from p len l0 v0 show ?thesis by blast
qed

text \<open>
  The rows \<^verbatim>\<open>[{block:null,seats:10},{block:"B",seats:null}]\<close>: the first label is empty, the
  second value is 0.
\<close>

theorem C5_null_label_and_value_witness:
  "labels \<lparr>labels = ['''', ''B''], datasets_label = ''seats'',
           data = [Num 10, Num 0], backgroundColor = [0, 47]\<rparr> ! 0 = []
   \<and> data \<lparr>labels = ['''', ''B''], datasets_label = ''seats'',
           data = [Num 10, Num 0], backgroundColor = [0, 47]\<rparr> ! 1 = Num 0
   \<and> ChartView example_host
        (Some [[(''block'', JNull), (''seats'', JNum (Num 10))], [(''block'', JStr ''B''), (''seats'', JNull)]]) None
      = Inr (Some (Pie ''seats'' ''block''
          \<lparr>labels = ['''', ''B''], datasets_label = ''seats'',
           data = [Num 10, Num 0], backgroundColor = [0, 47]\<rparr>))"
proof -
  let ?rows = "[[(''block'', JNull), (''seats'', JNum (Num 10))], [(''block'', JStr ''B''), (''seats'', JNull)]]"
  let ?d = "\<lparr>labels = ['''', ''B''], datasets_label = ''seats'',
             data = [Num 10, Num 0], backgroundColor = [0, 47]\<rparr>"
  have cv: "ChartView example_host (Some ?rows) None = Inr (Some (Pie ''seats'' ''block'' ?d))"
    by (simp add: ChartView_eval)
  have g0: "getprop (?rows ! 0) ''block'' = JNull \<or> getprop (?rows ! 0) ''block'' = JUndefined"
    by (simp add: getprop_def)
  have g1: "getprop (?rows ! 1) ''seats'' = JNull \<or> getprop (?rows ! 1) ''seats'' = JUndefined"
    by (simp add: getprop_def)
  have "labels ?d ! 0 = []"
    using C5_null_label_and_value [OF cv, of "''seats''" "''block''" ?d 0] g0 by blast
  moreover have "data ?d ! 1 = Num 0"
    using C5_null_label_and_value [OF cv, of "''seats''" "''block''" ?d 1] g1 by auto
  ultimately show ?thesis using cv by blast
qed

section \<open>The two-column fallback\<close>

lemma pick_cols_two_numeric:
  assumes "a \<noteq> b" and "numeric_candidate h rows a" and "numeric_candidate h rows b"
  shows "pick_cols h rows [a, b] = Inr (if a \<noteq> [] then (Some b, Some a) else (Some a, Some b))"
  using assms
  by (auto simp add: pick_cols_def select_loop_step found_simps fallback_def
            simp del: select_loop.simps(2))

text \<open>
  C6. For every result set with exactly two columns \<open>a\<close> and \<open>b\<close> of which none is a
  categorical candidate (so both are numeric candidates, and the loop finds a numeric column
  but no categorical one), the component takes one as \<open>numCol\<close> and makes the other one
  \<open>catCol\<close>, although that column did not classify as categorical. \<open>numCol\<close> is the first
  column, unless its name is the empty string. When both names are non-empty the chart drawn
  is the pie or bar chart of \<open>a\<close> by \<open>b\<close>, with the labels taken from \<open>b\<close>.
\<close>

theorem C6_two_column_fallback:
  assumes "map fst r = [a, b]" and "a \<noteq> b"
    and "\<not> categorical_candidate h (r # rs) a" and "\<not> categorical_candidate h (r # rs) b"
  shows "pick_cols h (r # rs) (map fst r)
           = Inr (if a \<noteq> [] then (Some b, Some a) else (Some a, Some b))
       \<and> (a \<noteq> [] \<and> b \<noteq> [] \<longrightarrow>
            ChartView h (Some (r # rs)) ov =
              Inr (Some (if ov = Some ''pie'' \<or> (length (r # rs) \<le> 10 \<and> ov \<noteq> Some ''bar'')
                         then Pie a b (chartData_of h (r # rs) b a)
                         else Bar a b (chartData_of h (r # rs) b a))))"
proof -
  have p: "pick_cols h (r # rs) (map fst r)
             = Inr (if a \<noteq> [] then (Some b, Some a) else (Some a, Some b))"
    using assms pick_cols_two_numeric [of a b h "r # rs"]
    by (simp add: categorical_candidate_def)
  then show ?thesis
    by (simp add: ChartView_rows render_pie_bar)
qed

text \<open>
  Two rows of a number column \<open>year\<close> and a column \<open>seats\<close> of numeric strings: both are
  numeric candidates, \<open>year\<close> becomes the numeric column and \<open>seats\<close> the categorical one.
\<close>

theorem C6_two_column_fallback_witness:
  "pick_cols example_host
     [[(''year'', JNum (Num 2023)), (''seats'', JStr ''40'')],
      [(''year'', JNum (Num 2024)), (''seats'', JStr ''55'')]] [''year'', ''seats'']
     = Inr (Some ''seats'', Some ''year'')
   \<and> ChartView example_host
     (Some [[(''year'', JNum (Num 2023)), (''seats'', JStr ''40'')],
            [(''year'', JNum (Num 2024)), (''seats'', JStr ''55'')]]) (Some ''bar'')
     = Inr (Some (Bar ''year'' ''seats''
         \<lparr>labels = [''40'', ''55''], datasets_label = ''year'',
          data = [Num 2023, Num 2024], backgroundColor = [0, 47]\<rparr>))"
proof -
  let ?r = "[(''year'', JNum (Num 2023)), (''seats'', JStr ''40'')]"
  let ?rs = "[[(''year'', JNum (Num 2024)), (''seats'', JStr ''55'')]]"
  have m: "map fst ?r = [''year'', ''seats'']" and ne: "''year'' \<noteq> ''seats''" by simp_all
  have ny: "\<not> categorical_candidate example_host (?r # ?rs) ''year''"
    by (simp add: categorical_candidate_def numeric_candidate_def ChartView_eval)
  have ns: "\<not> categorical_candidate example_host (?r # ?rs) ''seats''"
    by (simp add: categorical_candidate_def numeric_candidate_def ChartView_eval)
  have d: "chartData_of example_host (?r # ?rs) ''seats'' ''year''
             = \<lparr>labels = [''40'', ''55''], datasets_label = ''year'',
                data = [Num 2023, Num 2024], backgroundColor = [0, 47]\<rparr>"
    by (simp add: ChartView_eval)
  show ?thesis
    using C6_two_column_fallback [OF m ne ny ns, of "Some ''bar''"] d by simp
qed

section \<open>A column named by the empty string\<close>

text \<open>
  C1. The claim has every result set in which a categorical and a numeric candidate column
  are found drawn as a pie or a bar chart. On the rows \<^verbatim>\<open>[{"":"x","n":1},{"":"y","n":2}]\<close>
  the column named \<^verbatim>\<open>""\<close> is the first categorical candidate, \<^verbatim>\<open>n\<close> the first numeric
  one, and the component picks both; but \<^verbatim>\<open>catCol && numCol\<close> reads the empty string as
  falsy, and the component returns no chart, under every override.
\<close>

theorem C1_empty_name_no_chart:
  "find (categorical_candidate example_host
          [[('''', JStr ''x''), (''n'', JNum (Num 1))], [('''', JStr ''y''), (''n'', JNum (Num 2))]])
     ['''', ''n''] = Some ''''
   \<and> find (numeric_candidate example_host
          [[('''', JStr ''x''), (''n'', JNum (Num 1))], [('''', JStr ''y''), (''n'', JNum (Num 2))]])
     ['''', ''n''] = Some ''n''
   \<and> pick_cols example_host
        [[('''', JStr ''x''), (''n'', JNum (Num 1))], [('''', JStr ''y''), (''n'', JNum (Num 2))]]
        ['''', ''n''] = Inr (Some '''', Some ''n'')
   \<and> ChartView example_host
        (Some [[('''', JStr ''x''), (''n'', JNum (Num 1))], [('''', JStr ''y''), (''n'', JNum (Num 2))]]) ov
      = Inr None"
  by (simp add: categorical_candidate_def numeric_candidate_def ChartView_eval)

text \<open>
  C2. The claim has \<open>numCol\<close> be the first numeric candidate in column order. The loop keeps
  a column only while \<^verbatim>\<open>!numCol\<close> holds, and the empty string is falsy: on the one row
  \<^verbatim>\<open>{"": 1, "b": 2}\<close> both columns are numeric candidates, the first of them is the column
  named \<^verbatim>\<open>""\<close>, and the loop ends with \<open>numCol = "b"\<close>.
\<close>

theorem C2_first_numeric_column_skipped:
  "select_loop (colStats_of h [[('''', JNum (Num 1)), (''b'', JNum (Num 2))]] ['''', ''b''])
     (length [[('''', JNum (Num 1)), (''b'', JNum (Num 2))]]) ['''', ''b''] (None, None)
     = Inr (None, Some ''b'')
   \<and> find (numeric_candidate h [[('''', JNum (Num 1)), (''b'', JNum (Num 2))]]) ['''', ''b'']
     = Some ''''"
  by (simp add: numeric_candidate_def ChartView_eval)

text \<open>
  What holds of a single row: every column is a numeric candidate, the loop finds no
  categorical column, and one cell under a non-empty name is drawn as a line chart of one
  point, the cell's value passed through \<^verbatim>\<open>Number(v ?? 0)\<close>.
\<close>

lemma single_row_all_numeric: "length rows = 1 \<Longrightarrow> numeric_candidate h rows c"
  by (simp add: numeric_candidate_def)

lemma all_numeric_select:
  "\<forall>c \<in> set cs. numeric_candidate h rows c \<Longrightarrow> set cs \<subseteq> set cols \<Longrightarrow>
   \<exists>numCol. select_loop (colStats_of h rows cols) (length rows) cs (None, numCol0)
              = Inr (None, numCol)"
proof (induction cs arbitrary: numCol0)
  case Nil
  then show ?case by simp
next
  case (Cons c cs)
  then show ?case
    by (simp add: select_loop_step del: select_loop.simps(2))
qed

lemma single_row_no_categorical:
  "\<exists>numCol. select_loop (colStats_of h [r] cols) (length [r]) cols (None, None) = Inr (None, numCol)"
  using all_numeric_select [of cols h "[r]" cols None] single_row_all_numeric [of "[r]" h]
  by auto

lemma one_cell_line:
  "c \<noteq> [] \<Longrightarrow>
   ChartView h (Some [[(c, v)]]) ov = Inr (Some (Line c [1] [Number h (nullish v (JNum (Num 0)))]))"
  using single_column_line [of "[(c, v)]" c h "[]" ov] single_row_all_numeric [of "[[(c, v)]]" h c]
  by (simp add: column_values_def getprop_def)

text \<open>
  C9. The claim has every result set of one row and one column drawn as a line chart. On
  the one row \<^verbatim>\<open>{"": 3}\<close> the column is a numeric candidate, \<open>numCol\<close> becomes the empty
  string, which is falsy, and the component returns no chart.
\<close>

theorem C9_empty_name_no_line_chart:
  "ChartView h (Some [[('''', JNum (Num 3))]]) ov = Inr None
   \<and> numeric_candidate h [[('''', JNum (Num 3))]] ''''"
  by (simp add: numeric_candidate_def ChartView_eval)

section \<open>The override\<close>

text \<open>
  C10 (as amended). The override is read only where the component chooses between pie and
  bar. When \<open>catCol\<close> and \<open>numCol\<close> are found, the override \<^verbatim>\<open>"line"\<close> gives a pie chart up
  to 10 rows and a bar chart beyond, never a line chart; on every input it gives what no
  override gives. When they are not both found, every override gives what no override gives;
  so a single numeric column (with a non-empty name) is drawn as a line chart under every
  override, \<^verbatim>\<open>"line"\<close>, \<^verbatim>\<open>"bar"\<close> and \<^verbatim>\<open>"pie"\<close> included.
\<close>

theorem C10_override:
  "(pick_cols h (r # rs) (map fst r) = Inr (Some c, Some n) \<and> c \<noteq> [] \<and> n \<noteq> [] \<longrightarrow>
      ChartView h (Some (r # rs)) (Some ''line'') =
        Inr (Some (if length (r # rs) \<le> 10
                   then Pie n c (chartData_of h (r # rs) c n)
                   else Bar n c (chartData_of h (r # rs) c n))))
   \<and> ChartView h dataRows (Some ''line'') = ChartView h dataRows None
   \<and> (pick_cols h (r # rs) (map fst r) = Inr (catCol, numCol) \<and> \<not> (found catCol \<and> found numCol) \<longrightarrow>
        ChartView h (Some (r # rs)) ov = ChartView h (Some (r # rs)) None)
   \<and> (map fst r = [c] \<and> c \<noteq> [] \<and> numeric_candidate h (r # rs) c \<longrightarrow>
        ChartView h (Some (r # rs)) ov =
          Inr (Some (Line c [1..<Suc (length (r # rs))]
                 (map (\<lambda>v. Number h (nullish v (JNum (Num 0)))) (column_values (r # rs) c)))))"
proof (intro conjI impI)
  assume "pick_cols h (r # rs) (map fst r) = Inr (Some c, Some n) \<and> c \<noteq> [] \<and> n \<noteq> []"
  then show "ChartView h (Some (r # rs)) (Some ''line'') =
        Inr (Some (if length (r # rs) \<le> 10
                   then Pie n c (chartData_of h (r # rs) c n)
                   else Bar n c (chartData_of h (r # rs) c n)))"
    by (simp add: ChartView_rows render_pie_bar)
next
  show "ChartView h dataRows (Some ''line'') = ChartView h dataRows None"
    by (simp add: ChartView_def render_line_override split: option.splits sum.splits)
next
  assume "pick_cols h (r # rs) (map fst r) = Inr (catCol, numCol) \<and> \<not> (found catCol \<and> found numCol)"
  then show "ChartView h (Some (r # rs)) ov = ChartView h (Some (r # rs)) None"
    using render_no_pair [of catCol numCol h "r # rs" "map fst r" ov None]
    by (simp add: ChartView_rows)
next
  assume "map fst r = [c] \<and> c \<noteq> [] \<and> numeric_candidate h (r # rs) c"
  then show "ChartView h (Some (r # rs)) ov =
          Inr (Some (Line c [1..<Suc (length (r # rs))]
                 (map (\<lambda>v. Number h (nullish v (JNum (Num 0)))) (column_values (r # rs) c))))"
    by (simp add: single_column_line)
qed

text \<open>
  Eleven rows under the override \<^verbatim>\<open>"line"\<close> give a bar chart; one row of three text columns
  gives under \<^verbatim>\<open>"pie"\<close> what it gives with no override; a single numeric column under
  \<^verbatim>\<open>"pie"\<close> is still drawn as a line chart.
\<close>

theorem C10_override_witness:
  "ChartView example_host
     (Some ([(''c'', JStr ''x''), (''n'', JNum (Num 1))]
            # replicate 10 [(''c'', JStr ''x''), (''n'', JNum (Num 1))])) (Some ''line'')
   = Inr (Some (Bar ''n'' ''c''
       (chartData_of example_host
          ([(''c'', JStr ''x''), (''n'', JNum (Num 1))]
            # replicate 10 [(''c'', JStr ''x''), (''n'', JNum (Num 1))]) ''c'' ''n'')))
   \<and> ChartView example_host (Some [[(''c'', JStr ''x''), (''d'', JStr ''y''), (''e'', JStr ''z'')]]) (Some ''pie'')
     = ChartView example_host (Some [[(''c'', JStr ''x''), (''d'', JStr ''y''), (''e'', JStr ''z'')]]) None
   \<and> ChartView example_host (Some [[(''count'', JNum (Num 3))], [(''count'', JNum (Num 7))]]) (Some ''pie'')
     = Inr (Some (Line ''count'' [1, 2] [Num 3, Num 7]))"
proof -
  let ?r = "[(''c'', JStr ''x''), (''n'', JNum (Num 1))]"
  let ?t = "[(''c'', JStr ''x''), (''d'', JStr ''y''), (''e'', JStr ''z'')]"
  let ?q = "[(''count'', JNum (Num 3))]" and ?qs = "[[(''count'', JNum (Num 7))]]"
  have p11: "pick_cols example_host (?r # replicate 10 ?r) (map fst ?r) = Inr (Some ''c'', Some ''n'')
             \<and> ''c'' \<noteq> [] \<and> ''n'' \<noteq> []"
    by (simp add: ChartView_eval)
  have p3: "pick_cols example_host (?t # []) (map fst ?t) = Inr (None, Some ''c'')
            \<and> \<not> (found None \<and> found (Some ''c''))"
    by (simp add: ChartView_eval)
  have q: "map fst ?q = [''count''] \<and> ''count'' \<noteq> []
             \<and> numeric_candidate example_host (?q # ?qs) ''count''"
    by (simp add: numeric_candidate_def ChartView_eval)
  have 1: "ChartView example_host (Some (?r # replicate 10 ?r)) (Some ''line'') =
        Inr (Some (if length (?r # replicate 10 ?r) \<le> 10
                   then Pie ''n'' ''c'' (chartData_of example_host (?r # replicate 10 ?r) ''c'' ''n'')
                   else Bar ''n'' ''c'' (chartData_of example_host (?r # replicate 10 ?r) ''c'' ''n'')))"
    using C10_override [where h = example_host and r = ?r and rs = "replicate 10 ?r"
                               and c = "''c''" and n = "''n''" and dataRows = None
                               and catCol = None and numCol = None and ov = None] p11
    by (elim conjE) simp
  have 2: "ChartView example_host (Some (?t # [])) (Some ''pie'') = ChartView example_host (Some (?t # [])) None"
    using C10_override [where h = example_host and r = ?t and rs = "[]" and catCol = None
                               and numCol = "Some ''c''" and ov = "Some ''pie''"
                               and c = "''c''" and n = "''n''" and dataRows = None] p3
    by (elim conjE) simp
  have 3: "ChartView example_host (Some (?q # ?qs)) (Some ''pie'') =
          Inr (Some (Line ''count'' [1..<Suc (length (?q # ?qs))]
                 (map (\<lambda>v. Number example_host (nullish v (JNum (Num 0)))) (column_values (?q # ?qs) ''count''))))"
    using C10_override [where h = example_host and r = ?q and rs = ?qs and c = "''count''"
                               and ov = "Some ''pie''" and n = "''n''" and dataRows = None
                               and catCol = None and numCol = None] q
    by (elim conjE) simp
  from 1 have b1: "ChartView example_host (Some (?r # replicate 10 ?r)) (Some ''line'') =
        Inr (Some (Bar ''n'' ''c'' (chartData_of example_host (?r # replicate 10 ?r) ''c'' ''n'')))"
    by simp
  have u2: "[1..<Suc (length (?q # ?qs))] = [1, 2]" by (simp add: upt_rec)
  have v: "map (\<lambda>v. Number example_host (nullish v (JNum (Num 0))))
             (column_values (?q # ?qs) ''count'') = [Num 3, Num 7]"
    by (simp add: column_values_def ChartView_eval)
  from 3 have b3: "ChartView example_host (Some (?q # ?qs)) (Some ''pie'')
                     = Inr (Some (Line ''count'' [1, 2] [Num 3, Num 7]))"
    by (simp only: u2 v)
  from b1 2 b3 show ?thesis by blast
qed

text \<open>
  The claim as first stated has the override \<^verbatim>\<open>"line"\<close> never produce a line chart, on any
  input. On the one row \<^verbatim>\<open>{count: 3}\<close> with the override \<^verbatim>\<open>"line"\<close> the component returns a
  line chart.
\<close>

theorem C10_line_override_counterexample:
  "ChartView example_host (Some [[(''count'', JNum (Num 3))]]) (Some ''line'')
     = Inr (Some (Line ''count'' [1] [Num 3]))"
  by (simp add: ChartView_eval)

section \<open>Stability of the session identifier\<close>

text \<open>Drawing a fresh identifier touches only the draw counter.\<close>

lemma new_sid_frame:
  "localStorage (snd (new_sid b)) = localStorage b"
  "setItem_fails (snd (new_sid b)) = setItem_fails b"
  "has_randomUUID (snd (new_sid b)) = has_randomUUID b"
  "randomUUID (snd (new_sid b)) = randomUUID b"
  by (simp_all add: new_sid_def sid_random_def)

lemma new_sid_nonempty: "uuid_source b \<Longrightarrow> fst (new_sid b) \<noteq> []"
proof -
  assume "uuid_source b"
  then have "length (randomUUID b (draws b)) = 36" by (simp add: uuid_source_def)
  then have "randomUUID b (draws b) \<noteq> []" by auto
  then show ?thesis by (simp add: new_sid_def sid_random_def)
qed

lemma getSessionId_persisted:
  "persisted b = Some sid \<Longrightarrow> getSessionId b = (sid, b)"
  by (auto simp: persisted_def getSessionId_def try_block_def Let_def
           split: option.splits if_splits)

lemma getSessionId_fresh:
  assumes "working_storage b" and "persisted b = None" and "localStorage b = Some items"
  shows "getSessionId b =
           (fst (new_sid b),
            (snd (new_sid b))\<lparr>localStorage :=
               Some (items(''agentic_session_id'' \<mapsto> fst (new_sid b)))\<rparr>)"
proof -
  have nf: "\<not> found (items ''agentic_session_id'')"
    using assms by (auto simp: persisted_def found_def split: option.splits if_splits)
  have ok: "\<not> setItem_fails (snd (new_sid b))"
    using assms(1) by (simp add: new_sid_frame working_storage_def)
  obtain g b' where n: "new_sid b = (g, b')" by (cases "new_sid b")
  with ok have "\<not> setItem_fails b'" by simp
  with assms(3) nf n show ?thesis
    by (simp add: getSessionId_def try_block_def Let_def)
qed

lemma getSessionId_persists:
  assumes "working_storage b" and "uuid_source b"
  shows "persisted (snd (getSessionId b)) = Some (fst (getSessionId b))"
proof (cases "persisted b")
  case (Some sid)
  then show ?thesis by (simp add: getSessionId_persisted)
next
  case None
  from assms(1) obtain items where it: "localStorage b = Some items"
    by (auto simp: working_storage_def)
  show ?thesis
    using new_sid_nonempty [OF assms(2)]
    by (simp add: getSessionId_fresh [OF assms(1) None it] persisted_def found_simps)
qed

lemma after_calls_persisted:
  "persisted b = Some sid \<Longrightarrow> after_calls k b = b"
  by (induction k) (simp_all add: getSessionId_persisted)

text \<open>
  C7. When the browser holds a session id (storage can be read and the stored value is not
  empty), \<^verbatim>\<open>getSessionId\<close> returns it and leaves the browser as it was. Otherwise, with
  storage that can be read and written, it draws a fresh identifier, stores it under
  \<^verbatim>\<open>agentic_session_id\<close> and returns it: the next value of \<^verbatim>\<open>crypto.randomUUID\<close> where
  that exists, else \<^verbatim>\<open>sid-\<close> followed by the next random suffix, the draw being consumed.
  So with working storage, and
  \<^verbatim>\<open>crypto.randomUUID\<close> returning UUIDs, the browser holds after the first call the id that
  call returned, and every later call returns that same id.
\<close>

theorem C7_session_id_stable:
  "(persisted b = Some sid \<longrightarrow> getSessionId b = (sid, b))
   \<and> (working_storage b \<and> persisted b = None \<and> localStorage b = Some items \<longrightarrow>
        getSessionId b =
          (if has_randomUUID b then randomUUID b (draws b) else ''sid-'' @ random36 b (draws b),
           b\<lparr>draws := draws b + 1,
             localStorage :=
               Some (items(''agentic_session_id'' \<mapsto>
                  (if has_randomUUID b then randomUUID b (draws b)
                   else ''sid-'' @ random36 b (draws b))))\<rparr>))
   \<and> (working_storage b \<and> uuid_source b \<longrightarrow>
        persisted (snd (getSessionId b)) = Some (fst (getSessionId b))
        \<and> fst (getSessionId (after_calls (Suc k) b)) = fst (getSessionId b))"
proof (intro conjI impI)
  assume "persisted b = Some sid"
  then show "getSessionId b = (sid, b)" by (rule getSessionId_persisted)
next
  assume "working_storage b \<and> persisted b = None \<and> localStorage b = Some items"
  then show "getSessionId b =
          (if has_randomUUID b then randomUUID b (draws b) else ''sid-'' @ random36 b (draws b),
           b\<lparr>draws := draws b + 1,
             localStorage :=
               Some (items(''agentic_session_id'' \<mapsto>
                  (if has_randomUUID b then randomUUID b (draws b)
                   else ''sid-'' @ random36 b (draws b))))\<rparr>)"
    by (simp add: getSessionId_fresh new_sid_def sid_random_def)
next
  assume a: "working_storage b \<and> uuid_source b"
  then show p: "persisted (snd (getSessionId b)) = Some (fst (getSessionId b))"
    by (simp add: getSessionId_persists)
  have "after_calls (Suc k) b = snd (getSessionId b)"
    using after_calls_persisted [OF p, of k] by simp
  then show "fst (getSessionId (after_calls (Suc k) b)) = fst (getSessionId b)"
    using getSessionId_persisted [OF p] by simp
qed

text \<open>
  The returning browser gets its stored id back; the fresh browser gets the UUID drawn, holds
  it afterwards, and gets it again on the fourth call; the older browser gets and stores
  \<^verbatim>\<open>sid-k3j9x2\<close>.
\<close>

theorem C7_session_id_stable_witness:
  "getSessionId returning_browser = (''sid-k3j9x2'', returning_browser)
   \<and> getSessionId fresh_browser =
       (''123e4567-e89b-42d3-a456-426614174000'',
        fresh_browser\<lparr>draws := 1,
          localStorage := Some [''agentic_session_id'' \<mapsto> ''123e4567-e89b-42d3-a456-426614174000'']\<rparr>)
   \<and> getSessionId legacy_browser =
       (''sid-k3j9x2'',
        legacy_browser\<lparr>draws := 5,
          localStorage := Some [''agentic_session_id'' \<mapsto> ''sid-k3j9x2'']\<rparr>)
   \<and> persisted (snd (getSessionId fresh_browser)) = Some ''123e4567-e89b-42d3-a456-426614174000''
   \<and> fst (getSessionId (after_calls (Suc 2) fresh_browser)) = ''123e4567-e89b-42d3-a456-426614174000''"
proof -
  have r: "persisted returning_browser = Some ''sid-k3j9x2''"
    by (simp add: persisted_def returning_browser_def found_simps)
  have w: "working_storage fresh_browser \<and> persisted fresh_browser = None
            \<and> localStorage fresh_browser = Some Map.empty"
    by (simp add: working_storage_def persisted_def fresh_browser_def found_simps)
  have l: "working_storage legacy_browser \<and> persisted legacy_browser = None
            \<and> localStorage legacy_browser = Some Map.empty"
    by (simp add: working_storage_def persisted_def legacy_browser_def found_simps)
  have u: "uuid_source fresh_browser"
    by (simp add: uuid_source_def fresh_browser_def)
  have fv: "has_randomUUID fresh_browser" "draws fresh_browser = 0"
    "randomUUID fresh_browser 0 = ''123e4567-e89b-42d3-a456-426614174000''"
    by (simp_all add: fresh_browser_def)
  have lv: "\<not> has_randomUUID legacy_browser" "draws legacy_browser = 4"
    "random36 legacy_browser 4 = ''k3j9x2''"
    by (simp_all add: legacy_browser_def)
  have 1: "getSessionId returning_browser = (''sid-k3j9x2'', returning_browser)"
    using C7_session_id_stable [where b = returning_browser and sid = "''sid-k3j9x2''"
                                     and items = Map.empty and k = 0] r
    by (elim conjE) simp
  have 2: "getSessionId fresh_browser =
       (''123e4567-e89b-42d3-a456-426614174000'',
        fresh_browser\<lparr>draws := 1,
          localStorage := Some [''agentic_session_id'' \<mapsto> ''123e4567-e89b-42d3-a456-426614174000'']\<rparr>)"
    using C7_session_id_stable [where b = fresh_browser and items = Map.empty
                                     and sid = "[]" and k = 0] w fv
    by (elim conjE) simp
  have 4: "getSessionId legacy_browser =
       (''sid-k3j9x2'',
        legacy_browser\<lparr>draws := 5,
          localStorage := Some [''agentic_session_id'' \<mapsto> ''sid-k3j9x2'']\<rparr>)"
    using C7_session_id_stable [where b = legacy_browser and items = Map.empty
                                     and sid = "[]" and k = 0] l lv
    by (elim conjE) simp
  have 3: "persisted (snd (getSessionId fresh_browser)) = Some (fst (getSessionId fresh_browser))
        \<and> fst (getSessionId (after_calls (Suc 2) fresh_browser)) = fst (getSessionId fresh_browser)"
    using C7_session_id_stable [where b = fresh_browser and k = 2
                                     and sid = "[]" and items = Map.empty] w u
    by (elim conjE) simp
  from 2 have f: "fst (getSessionId fresh_browser) = ''123e4567-e89b-42d3-a456-426614174000''"
    by simp
  from 1 2 4 3 f show ?thesis by simp
qed

section \<open>Reindexing at startup\<close>

text \<open>What the two scripts do, in full.\<close>

lemmas sh_defs = if_then_def or_else_def echo_def sleep_def program_def exec_def

lemma entrypoint_run:
  "entrypoint w =
     ((if param_default w ''REINDEX_KB'' ''true'' = ''true''
       then [Out ''Reindexing KB...'', Ran [''/app/scripts/reindex_kb.sh'', ''/app/knowledge_base'']]
            @ (if exit_status w [''/app/scripts/reindex_kb.sh'', ''/app/knowledge_base''] = 0 then []
               else [Out ''reindex failed, continuing...''])
       else [])
      @ (if args w = [] then [] else [Launched (args w)]),
      if args w = [] then Status 0 else Replaced)"
  by (simp add: entrypoint_def sh_defs)

lemma start_sh_run:
  "start_sh w =
     ([Out ''Waiting for Qdrant to be ready...'', Slept 5, Out ''Reindexing Knowledge Base...'',
       Ran [''./scripts/reindex_kb.sh'']]
      @ (if exit_status w [''./scripts/reindex_kb.sh''] = 0 then []
         else [Out (''Reindex failed '' @ [CHR 0xE2, CHR 0x80, CHR 0x94] @ '' continuing startup.'')])
      @ [Out ''Starting backend...'',
         Launched [''uvicorn'', ''app:app'', ''--host'', ''0.0.0.0'', ''--port'', ''8000'']],
      Replaced)"
  by (simp add: start_sh_def sh_defs)

text \<open>
  C8 (as amended). The entry point runs the reindex job exactly when \<^verbatim>\<open>REINDEX_KB\<close>, read
  with the default \<^verbatim>\<open>true\<close> for an unset or empty variable, equals \<^verbatim>\<open>true\<close>; when the job
  fails the failure is logged, and whether it ran, failed or succeeded, the script ends by
  replacing the shell with the command line it was given, if it was given one. \<^verbatim>\<open>start.sh\<close>
  has no toggle: it always runs the reindex job, logs its failure, and always ends by
  launching the backend server.
\<close>

theorem C8_startup_reindex:
  "(Ran [''/app/scripts/reindex_kb.sh'', ''/app/knowledge_base''] \<in> set (fst (entrypoint w))
      \<longleftrightarrow> param_default w ''REINDEX_KB'' ''true'' = ''true'')
   \<and> (param_default w ''REINDEX_KB'' ''true'' = ''true''
        \<and> exit_status w [''/app/scripts/reindex_kb.sh'', ''/app/knowledge_base''] \<noteq> 0 \<longrightarrow>
        Out ''reindex failed, continuing...'' \<in> set (fst (entrypoint w)))
   \<and> (args w \<noteq> [] \<longrightarrow>
        snd (entrypoint w) = Replaced \<and> last (fst (entrypoint w)) = Launched (args w))
   \<and> Ran [''./scripts/reindex_kb.sh''] \<in> set (fst (start_sh w))
   \<and> (exit_status w [''./scripts/reindex_kb.sh''] \<noteq> 0 \<longrightarrow>
        Out (''Reindex failed '' @ [CHR 0xE2, CHR 0x80, CHR 0x94] @ '' continuing startup.'')
          \<in> set (fst (start_sh w)))
   \<and> snd (start_sh w) = Replaced
   \<and> last (fst (start_sh w))
        = Launched [''uvicorn'', ''app:app'', ''--host'', ''0.0.0.0'', ''--port'', ''8000'']"
  by (simp add: entrypoint_run start_sh_run)

text \<open>
  A container whose reindex job fails still launches the given command, after logging the
  failure; with \<^verbatim>\<open>REINDEX_KB=false\<close> the entry point does not run the job.
\<close>

theorem C8_startup_reindex_witness:
  "Ran [''/app/scripts/reindex_kb.sh'', ''/app/knowledge_base''] \<in> set (fst (entrypoint failing_world))
   \<and> Out ''reindex failed, continuing...'' \<in> set (fst (entrypoint failing_world))
   \<and> snd (entrypoint failing_world) = Replaced
   \<and> last (fst (entrypoint failing_world))
        = Launched [''uvicorn'', ''app:app'', ''--host'', ''0.0.0.0'', ''--port'', ''8000'']
   \<and> Out (''Reindex failed '' @ [CHR 0xE2, CHR 0x80, CHR 0x94] @ '' continuing startup.'')
          \<in> set (fst (start_sh failing_world))
   \<and> Ran [''/app/scripts/reindex_kb.sh'', ''/app/knowledge_base''] \<notin> set (fst (entrypoint toggle_off_world))"
proof -
  have t: "param_default failing_world ''REINDEX_KB'' ''true'' = ''true''"
    by (simp add: param_default_def failing_world_def)
  have e1: "exit_status failing_world [''/app/scripts/reindex_kb.sh'', ''/app/knowledge_base''] \<noteq> 0"
    and e2: "exit_status failing_world [''./scripts/reindex_kb.sh''] \<noteq> 0"
    and a: "args failing_world \<noteq> []"
    and av: "args failing_world = [''uvicorn'', ''app:app'', ''--host'', ''0.0.0.0'', ''--port'', ''8000'']"
    by (simp_all add: failing_world_def)
  have off: "param_default toggle_off_world ''REINDEX_KB'' ''true'' \<noteq> ''true''"
    by (simp add: param_default_def toggle_off_world_def)
  show ?thesis
    using C8_startup_reindex [of failing_world] C8_startup_reindex [of toggle_off_world]
      t e1 e2 a av off
    by simp
qed

text \<open>
  The claim as first stated has the reindex job run at startup only when \<^verbatim>\<open>REINDEX_KB\<close> is
  \<^verbatim>\<open>true\<close>. \<^verbatim>\<open>start.sh\<close> runs it with \<^verbatim>\<open>REINDEX_KB=false\<close> in the environment.
\<close>

theorem C8_start_sh_no_toggle_counterexample:
  "param_default toggle_off_world ''REINDEX_KB'' ''true'' \<noteq> ''true''
   \<and> Ran [''./scripts/reindex_kb.sh''] \<in> set (fst (start_sh toggle_off_world))"
  by (simp add: param_default_def toggle_off_world_def start_sh_def sh_defs)

end
